theory Spec2Isabelle
  imports Complex_Main
begin

section \<open>The Map component of the field dashboard (src/components/Map.tsx)\<close>

text \<open>
  The component is a React function component: a handful of state cells, event handlers
  that read the cells of the render they were created in and call setters, and a render
  function that passes the cells to child widgets. The embedding keeps that shape:
  \<^item> the state cells are the fields of the record \<open>State\<close>;
  \<^item> a handler is a function from the event and the state it closes over to the list
    of setter and map calls it makes, in source order (\<open>Call list\<close>);
  \<^item> \<open>run_calls\<close> performs the calls, giving the state of the next render;
  \<^item> what the render hands to a child widget is a function of the state.

  A JavaScript \<open>number\<close> is modelled as a \<open>real\<close>: rounding, infinities and NaN of
  IEEE doubles are outside the model. This matters in one place, the threshold test of
  \<open>handleMove\<close>: the double nearest to 0.02 is greater than 1/50, and \<open>Math.pow\<close> and
  \<open>Math.sqrt\<close> round their results, so at and next to the boundary the handler's test
  and the exact inequality of the model can differ. The string-literal union
  \<open>'STREETS' | 'SATELLITE'\<close> is a \<open>string\<close>, as it is at run time. A value that may be
  \<open>null\<close> or \<open>undefined\<close> is an \<open>option\<close>.

  In \<open>handleMove\<close>, \<open>step\<close> and \<open>run_events\<close> a handler runs in the closure of the
  latest render, that is, on the state the previous event left behind. Several events
  may be handled before React renders again; a statement that is to hold for such a
  stale closure as well names the closed-over state and the current state separately
  and uses \<open>run_calls\<close> directly.
\<close>

subsection \<open>Data\<close>

text \<open>\<open>interface Coordinates\<close> (Map.tsx, lines 37-40).\<close>

record Coordinates =
  longitude :: real
  latitude :: real

text \<open>\<open>const MOVEMENT_THRESHOLD = 0.02\<close> (line 43).\<close>

definition MOVEMENT_THRESHOLD :: real where
  "MOVEMENT_THRESHOLD = 0.02"

text \<open>
  The argument of the move handler, \<open>event.viewState\<close> (line 64). The fields carry the
  prefix \<open>vs_\<close> because a record field is a constant of the theory and \<open>longitude\<close>,
  \<open>latitude\<close> and \<open>zoom\<close> are taken by \<open>Coordinates\<close> and \<open>State\<close>.
\<close>

record ViewState =
  vs_longitude :: real
  vs_latitude :: real
  vs_zoom :: real

record MoveEvent =
  viewState :: ViewState

text \<open>The two fields of a \<open>KeyboardEvent\<close> that \<open>handleKeyPress\<close> reads (line 118).\<close>

record KeyboardEvent =
  ctrlKey :: bool
  key :: string

text \<open>
  The argument of the map's \<open>flyTo\<close> (lines 91-96 and 120-125); \<open>center\<close> is the
  two-element array \<open>[longitude, latitude]\<close>, \<open>fly_zoom\<close> is the field \<open>zoom\<close>.
\<close>

record FlyToOptions =
  center :: "real \<times> real"
  fly_zoom :: real
  pitch :: real
  bearing :: real

text \<open>
  The map object behind \<open>mapRef.current\<close>. The component only ever asks it to fly
  somewhere, so the object is observed through the requests made of it, oldest first.
\<close>

record MapRef =
  flyToRequests :: "FlyToOptions list"

text \<open>
  The state cells of the component (lines 47-55). \<open>coordinates\<close> and
  \<open>selectedLocation\<close> come from the \<open>useCoordinates\<close> context, the others from
  \<open>useState\<close>. \<open>mapRef\<close> is \<open>{ current?: MapRef }\<close>: \<open>None\<close> while \<open>current\<close> is
  not set.
\<close>

record State =
  coordinates :: Coordinates
  selectedLocation :: "Coordinates option"
  mapRef :: "MapRef option"
  loading :: bool
  zoom :: real
  mapStyle :: string
  lastWeatherCoordinates :: "Coordinates option"

text \<open>
  What a handler can do: call one of the setters, ask the map to fly, or call
  \<open>event.preventDefault()\<close>. \<open>setMapStyle\<close> is called with an updater function
  (line 229), the other setters with a value.
\<close>

datatype Call =
    SetCoordinates Coordinates
  | SetSelectedLocation "Coordinates option"
  | SetMapRef MapRef
  | SetLoading bool
  | SetZoom real
  | SetMapStyle "string \<Rightarrow> string"
  | SetLastWeatherCoordinates "Coordinates option"
  | FlyTo FlyToOptions
  | PreventDefault

subsection \<open>Performing calls\<close>

text \<open>
  A setter stores its argument in its cell (\<open>setMapStyle\<close> applies the updater to the
  current value). \<open>flyTo\<close> is recorded on the map object; \<open>preventDefault\<close> changes
  nothing of the component.
\<close>

fun apply_call :: "Call \<Rightarrow> State \<Rightarrow> State" where
  "apply_call (SetCoordinates c) s = s\<lparr>coordinates := c\<rparr>"
| "apply_call (SetSelectedLocation l) s = s\<lparr>selectedLocation := l\<rparr>"
| "apply_call (SetMapRef m) s = s\<lparr>mapRef := Some m\<rparr>"
| "apply_call (SetLoading b) s = s\<lparr>loading := b\<rparr>"
| "apply_call (SetZoom z) s = s\<lparr>zoom := z\<rparr>"
| "apply_call (SetMapStyle f) s = s\<lparr>mapStyle := f (mapStyle s)\<rparr>"
| "apply_call (SetLastWeatherCoordinates w) s = s\<lparr>lastWeatherCoordinates := w\<rparr>"
| "apply_call (FlyTo opts) s =
     s\<lparr>mapRef := map_option (\<lambda>m. m\<lparr>flyToRequests := flyToRequests m @ [opts]\<rparr>) (mapRef s)\<rparr>"
| "apply_call PreventDefault s = s"

fun run_calls :: "Call list \<Rightarrow> State \<Rightarrow> State" where
  "run_calls [] s = s"
| "run_calls (c # cs) s = run_calls cs (apply_call c s)"

subsection \<open>The handlers\<close>

text \<open>
  \<open>mapRef.current?.flyTo(opts)\<close>: the call is made only when \<open>current\<close> is set.
\<close>

definition flyTo_if_mounted :: "State \<Rightarrow> FlyToOptions \<Rightarrow> Call list" where
  "flyTo_if_mounted s opts = (case mapRef s of None \<Rightarrow> [] | Some m \<Rightarrow> [FlyTo opts])"

text \<open>\<open>measuredRef\<close> (line 58): \<open>node && setMapRef({ current: node })\<close>.\<close>

definition measuredRef_calls :: "MapRef option \<Rightarrow> Call list" where
  "measuredRef_calls node = (case node of None \<Rightarrow> [] | Some m \<Rightarrow> [SetMapRef m])"

text \<open>
  \<open>handleMove\<close> (lines 63-83). \<open>distanceMoved\<close> is the local constant of lines 70-73,
  as a function of the event's coordinates and the previous weather coordinates.
\<close>

definition distanceMoved :: "real \<Rightarrow> real \<Rightarrow> Coordinates \<Rightarrow> real" where
  "distanceMoved lon lat lastWeather =
     sqrt ((lon - longitude lastWeather) ^ 2 + (lat - latitude lastWeather) ^ 2)"

definition handleMove_calls :: "MoveEvent \<Rightarrow> State \<Rightarrow> Call list" where
  "handleMove_calls event s =
     (let lon = vs_longitude (viewState event);
          lat = vs_latitude (viewState event);
          z = vs_zoom (viewState event)
      in [SetCoordinates \<lparr>longitude = lon, latitude = lat\<rparr>, SetZoom z] @
         (case lastWeatherCoordinates s of
            Some lastWeather \<Rightarrow>
              if distanceMoved lon lat lastWeather > MOVEMENT_THRESHOLD
              then [SetLastWeatherCoordinates (Some \<lparr>longitude = lon, latitude = lat\<rparr>)]
              else []
          | None \<Rightarrow> [SetLastWeatherCoordinates (Some \<lparr>longitude = lon, latitude = lat\<rparr>)]))"

definition handleMove :: "MoveEvent \<Rightarrow> State \<Rightarrow> State" where
  "handleMove event s = run_calls (handleMove_calls event s) s"

text \<open>
  \<open>updateCoordinates\<close> (lines 89-99), the callback of the current-location button
  (line 231) and the second step of a search selection.
\<close>

definition updateCoordinates_calls :: "Coordinates \<Rightarrow> State \<Rightarrow> Call list" where
  "updateCoordinates_calls newCoordinates s =
     [SetCoordinates newCoordinates] @
     flyTo_if_mounted s
       \<lparr>center = (longitude newCoordinates, latitude newCoordinates),
        fly_zoom = 16, pitch = 60, bearing = - 20\<rparr> @
     [SetSelectedLocation (Some newCoordinates),
      SetLastWeatherCoordinates (Some newCoordinates)]"

definition updateCoordinates :: "Coordinates \<Rightarrow> State \<Rightarrow> State" where
  "updateCoordinates newCoordinates s = run_calls (updateCoordinates_calls newCoordinates s) s"

text \<open>\<open>handleSelectLocation\<close> (lines 106-111), the callback of the search bar.\<close>

definition handleSelectLocation_calls :: "real \<Rightarrow> real \<Rightarrow> State \<Rightarrow> Call list" where
  "handleSelectLocation_calls lon lat s =
     (let newLocation = \<lparr>longitude = lon, latitude = lat\<rparr>
      in [SetSelectedLocation (Some newLocation)] @
         updateCoordinates_calls newLocation s @
         [SetZoom 14])"

definition handleSelectLocation :: "real \<Rightarrow> real \<Rightarrow> State \<Rightarrow> State" where
  "handleSelectLocation lon lat s = run_calls (handleSelectLocation_calls lon lat s) s"

text \<open>\<open>handleKeyPress\<close> (lines 117-134), the \<open>keydown\<close> listener of the window.\<close>

definition handleKeyPress_calls :: "KeyboardEvent \<Rightarrow> State \<Rightarrow> Call list" where
  "handleKeyPress_calls event s =
     (if ctrlKey event \<and> key event = ''q''
      then [PreventDefault] @
           flyTo_if_mounted s
             \<lparr>center = (- 4.649779746122704, 17.08385049329921),
              fly_zoom = 2, pitch = 0, bearing = 0\<rparr> @
           [SetCoordinates \<lparr>longitude = - 4.649779746122704, latitude = 17.08385049329921\<rparr>,
            SetZoom 2,
            SetSelectedLocation None,
            SetLastWeatherCoordinates None]
      else [])"

definition handleKeyPress :: "KeyboardEvent \<Rightarrow> State \<Rightarrow> State" where
  "handleKeyPress event s = run_calls (handleKeyPress_calls event s) s"

text \<open>The key event of the shortcut: the Control key held, the key \<open>q\<close>.\<close>

definition ctrl_q :: KeyboardEvent where
  "ctrl_q = \<lparr>ctrlKey = True, key = ''q''\<rparr>"

text \<open>
  The inline handlers of the render: \<open>onLoad\<close> (lines 153-155), the marker's
  \<open>onClick\<close> (lines 177-179; the marker exists only while a location is selected) and
  the style button's \<open>onToggle\<close> (line 229).
\<close>

definition onLoad_calls :: "Call list" where
  "onLoad_calls = [SetLoading False]"

definition markerClick_calls :: "State \<Rightarrow> Call list" where
  "markerClick_calls s =
     (case selectedLocation s of None \<Rightarrow> [] | Some l \<Rightarrow> [SetSelectedLocation None])"

definition toggleMapStyle :: "string \<Rightarrow> string" where
  "toggleMapStyle current = (if current = ''STREETS'' then ''SATELLITE'' else ''STREETS'')"

definition onToggle_calls :: "Call list" where
  "onToggle_calls = [SetMapStyle toggleMapStyle]"

definition onToggle :: "State \<Rightarrow> State" where
  "onToggle s = run_calls onToggle_calls s"

subsection \<open>The render\<close>

text \<open>
  The props of \<open>CoordinatesDisplay\<close> (lines 210-214): longitude, latitude and zoom.
\<close>

definition CoordinatesDisplay_props :: "State \<Rightarrow> real \<times> real \<times> real" where
  "CoordinatesDisplay_props s =
     (longitude (coordinates s), latitude (coordinates s), zoom s)"


subsection \<open>The component as a transition system\<close>

text \<open>
  The state of the first render (lines 47-55). The initial values of the two context
  cells are set by the provider, which is another file: they are parameters.
\<close>

definition initialState :: "Coordinates \<Rightarrow> Coordinates option \<Rightarrow> State" where
  "initialState c sel =
     \<lparr>coordinates = c, selectedLocation = sel, mapRef = None, loading = True,
      zoom = 0, mapStyle = ''STREETS'', lastWeatherCoordinates = None\<rparr>"

text \<open>Everything that can happen to the component, and the handler that answers it.\<close>

datatype Event =
    Ref "MapRef option"
  | Move MoveEvent
  | Load
  | MarkerClick
  | SearchSelect real real
  | CurrentLocation Coordinates
  | KeyDown KeyboardEvent
  | ToggleStyle

fun calls_of :: "Event \<Rightarrow> State \<Rightarrow> Call list" where
  "calls_of (Ref node) s = measuredRef_calls node"
| "calls_of (Move event) s = handleMove_calls event s"
| "calls_of Load s = onLoad_calls"
| "calls_of MarkerClick s = markerClick_calls s"
| "calls_of (SearchSelect lon lat) s = handleSelectLocation_calls lon lat s"
| "calls_of (CurrentLocation c) s = updateCoordinates_calls c s"
| "calls_of (KeyDown event) s = handleKeyPress_calls event s"
| "calls_of ToggleStyle s = onToggle_calls"

definition step :: "Event \<Rightarrow> State \<Rightarrow> State" where
  "step e s = run_calls (calls_of e s) s"

fun run_events :: "Event list \<Rightarrow> State \<Rightarrow> State" where
  "run_events [] s = s"
| "run_events (e # es) s = run_events es (step e s)"

text \<open>The two names of \<open>MAP_STYLES\<close> (lines 23-32).\<close>

definition STREETS :: string where
  "STREETS = ''STREETS''"

definition SATELLITE :: string where
  "SATELLITE = ''SATELLITE''"

section \<open>Properties\<close>

subsection \<open>Comparing a square root with the threshold\<close>

lemma sqrt_gt_iff: "0 \<le> t \<Longrightarrow> (t < sqrt x) = (t\<^sup>2 < x)"
  by (metis real_sqrt_less_iff real_sqrt_abs abs_of_nonneg)

lemma sqrt_within_threshold: "x \<le> 1 / 2500 \<Longrightarrow> sqrt x \<le> (0.02 :: real)"
proof -
  assume a: "x \<le> 1 / 2500"
  have "(1 / 50 :: real)\<^sup>2 = 1 / 2500"
    by (simp add: power2_eq_square)
  with a have "\<not> (1 / 50)\<^sup>2 < x" by simp
  then have "\<not> 1 / 50 < sqrt x"
    using sqrt_gt_iff [of "1 / 50" x] by simp
  then show ?thesis by simp
qed

subsection \<open>The next state of each handler, in closed form\<close>

lemma handleMove_result:
  "handleMove event s =
     s\<lparr>coordinates := \<lparr>longitude = vs_longitude (viewState event), latitude = vs_latitude (viewState event)\<rparr>,
       zoom := vs_zoom (viewState event),
       lastWeatherCoordinates :=
         (case lastWeatherCoordinates s of
            None \<Rightarrow> Some \<lparr>longitude = vs_longitude (viewState event), latitude = vs_latitude (viewState event)\<rparr>
          | Some w \<Rightarrow>
              if distanceMoved (vs_longitude (viewState event)) (vs_latitude (viewState event)) w > MOVEMENT_THRESHOLD
              then Some \<lparr>longitude = vs_longitude (viewState event), latitude = vs_latitude (viewState event)\<rparr>
              else Some w)\<rparr>"
  by (cases "lastWeatherCoordinates s") (simp_all add: handleMove_def handleMove_calls_def Let_def)

lemma updateCoordinates_result:
  "updateCoordinates n s =
     s\<lparr>coordinates := n,
       mapRef := (case mapRef s of None \<Rightarrow> None
                  | Some m \<Rightarrow> Some (m\<lparr>flyToRequests := flyToRequests m @
                      [\<lparr>center = (longitude n, latitude n), fly_zoom = 16, pitch = 60, bearing = - 20\<rparr>]\<rparr>)),
       selectedLocation := Some n,
       lastWeatherCoordinates := Some n\<rparr>"
  by (cases "mapRef s") (simp_all add: updateCoordinates_def updateCoordinates_calls_def flyTo_if_mounted_def)

lemma handleSelectLocation_result:
  "handleSelectLocation lon lat s =
     s\<lparr>coordinates := \<lparr>longitude = lon, latitude = lat\<rparr>,
       mapRef := (case mapRef s of None \<Rightarrow> None
                  | Some m \<Rightarrow> Some (m\<lparr>flyToRequests := flyToRequests m @
                      [\<lparr>center = (lon, lat), fly_zoom = 16, pitch = 60, bearing = - 20\<rparr>]\<rparr>)),
       selectedLocation := Some \<lparr>longitude = lon, latitude = lat\<rparr>,
       lastWeatherCoordinates := Some \<lparr>longitude = lon, latitude = lat\<rparr>,
       zoom := 14\<rparr>"
  by (cases "mapRef s")
     (simp_all add: handleSelectLocation_def handleSelectLocation_calls_def
        updateCoordinates_calls_def flyTo_if_mounted_def Let_def)

lemma handleKeyPress_result:
  "handleKeyPress event s =
     (if ctrlKey event \<and> key event = ''q''
      then s\<lparr>mapRef := (case mapRef s of None \<Rightarrow> None
                  | Some m \<Rightarrow> Some (m\<lparr>flyToRequests := flyToRequests m @
                      [\<lparr>center = (- 4.649779746122704, 17.08385049329921),
                        fly_zoom = 2, pitch = 0, bearing = 0\<rparr>]\<rparr>)),
             coordinates := \<lparr>longitude = - 4.649779746122704, latitude = 17.08385049329921\<rparr>,
             zoom := 2,
             selectedLocation := None,
             lastWeatherCoordinates := None\<rparr>
      else s)"
  by (cases "mapRef s")
     (simp_all add: handleKeyPress_def handleKeyPress_calls_def flyTo_if_mounted_def)

subsection \<open>The live coordinate display\<close>

text \<open>
  Claim C5. Every move event sets the displayed coordinates and zoom to exactly the
  longitude, latitude and zoom of the event's view state, whatever the state before:
  the threshold check does not stand between the event and the coordinate display.
\<close>
theorem handleMove_sets_display:
  "coordinates (handleMove event s) =
     \<lparr>longitude = vs_longitude (viewState event), latitude = vs_latitude (viewState event)\<rparr>
   \<and> zoom (handleMove event s) = vs_zoom (viewState event)
   \<and> CoordinatesDisplay_props (handleMove event s) =
       (vs_longitude (viewState event), vs_latitude (viewState event), vs_zoom (viewState event))"
  by (simp add: handleMove_result CoordinatesDisplay_props_def)

subsection \<open>The first move event\<close>

text \<open>
  Claim C7. A move event handled while there is no previous weather coordinate sets
  the weather coordinate to the event's coordinates with no distance check: the calls
  made are the two display setters and \<open>setLastWeatherCoordinates\<close>, always.
\<close>
theorem handleMove_first_unconditional:
  assumes "lastWeatherCoordinates s = None"
  shows "handleMove_calls event s =
           [SetCoordinates \<lparr>longitude = vs_longitude (viewState event),
                            latitude = vs_latitude (viewState event)\<rparr>,
            SetZoom (vs_zoom (viewState event)),
            SetLastWeatherCoordinates
              (Some \<lparr>longitude = vs_longitude (viewState event),
                     latitude = vs_latitude (viewState event)\<rparr>)]
         \<and> lastWeatherCoordinates (handleMove event s) =
             Some \<lparr>longitude = vs_longitude (viewState event),
                   latitude = vs_latitude (viewState event)\<rparr>"
  using assms by (simp add: handleMove_result) (simp add: handleMove_calls_def Let_def)

theorem handleMove_first_unconditional_witness:
  "lastWeatherCoordinates (initialState \<lparr>longitude = 3, latitude = 4\<rparr> None) = None
   \<and> lastWeatherCoordinates
       (handleMove \<lparr>viewState = \<lparr>vs_longitude = 3, vs_latitude = 4, vs_zoom = 2\<rparr>\<rparr>
          (initialState \<lparr>longitude = 3, latitude = 4\<rparr> None))
     = Some \<lparr>longitude = 3, latitude = 4\<rparr>"
proof -
  have h: "lastWeatherCoordinates (initialState \<lparr>longitude = 3, latitude = 4\<rparr> None) = None"
    by (simp add: initialState_def)
  from handleMove_first_unconditional
         [OF h, of "\<lparr>viewState = \<lparr>vs_longitude = 3, vs_latitude = 4, vs_zoom = 2\<rparr>\<rparr>"] h
  show ?thesis by simp
qed

subsection \<open>What the move handler leaves alone\<close>

text \<open>
  Claim C8. The move handler changes nothing but the coordinates, the zoom and the
  weather coordinate: the selected location, the map style and the loading flag (and
  the map reference) are as before, for every move event and every state.
\<close>
theorem handleMove_frame:
  "selectedLocation (handleMove event s) = selectedLocation s
   \<and> mapStyle (handleMove event s) = mapStyle s
   \<and> loading (handleMove event s) = loading s
   \<and> mapRef (handleMove event s) = mapRef s
   \<and> handleMove event s =
       s\<lparr>coordinates := coordinates (handleMove event s),
         zoom := zoom (handleMove event s),
         lastWeatherCoordinates := lastWeatherCoordinates (handleMove event s)\<rparr>"
  by (simp add: handleMove_result)

subsection \<open>The map style\<close>

text \<open>
  Claim C9. The style toggle is an involution on the two styles: toggling twice gives
  back the style one started from.
\<close>
theorem toggleMapStyle_involution:
  assumes "current \<in> {STREETS, SATELLITE}"
  shows "toggleMapStyle (toggleMapStyle current) = current"
  using assms by (auto simp add: toggleMapStyle_def STREETS_def SATELLITE_def)

theorem toggleMapStyle_involution_witness:
  "STREETS \<in> {STREETS, SATELLITE} \<and> toggleMapStyle (toggleMapStyle STREETS) = STREETS
   \<and> SATELLITE \<in> {STREETS, SATELLITE} \<and> toggleMapStyle (toggleMapStyle SATELLITE) = SATELLITE"
proof -
  have a: "STREETS \<in> {STREETS, SATELLITE}" and b: "SATELLITE \<in> {STREETS, SATELLITE}"
    by simp_all
  from toggleMapStyle_involution [OF a] toggleMapStyle_involution [OF b] a b
  show ?thesis by simp
qed

text \<open>
  The style after one event: only the toggle touches it.
\<close>
lemma toggleMapStyle_range: "toggleMapStyle current \<in> {STREETS, SATELLITE}"
  by (simp add: toggleMapStyle_def STREETS_def SATELLITE_def)

lemma step_mapStyle:
  "mapStyle (step e s) = (case e of ToggleStyle \<Rightarrow> toggleMapStyle (mapStyle s) | _ \<Rightarrow> mapStyle s)"
proof (cases e)
  case (Ref node)
  then show ?thesis
    by (cases node) (simp_all add: step_def measuredRef_calls_def)
next
  case (Move event)
  then show ?thesis
    using handleMove_result [of event s] by (simp add: step_def handleMove_def)
next
  case Load
  then show ?thesis by (simp add: step_def onLoad_calls_def)
next
  case MarkerClick
  then show ?thesis
    by (cases "selectedLocation s") (simp_all add: step_def markerClick_calls_def)
next
  case (SearchSelect lon lat)
  then show ?thesis
    using handleSelectLocation_result [of lon lat s] by (simp add: step_def handleSelectLocation_def)
next
  case (CurrentLocation c)
  then show ?thesis
    using updateCoordinates_result [of c s] by (simp add: step_def updateCoordinates_def)
next
  case (KeyDown event)
  then show ?thesis
    using handleKeyPress_result [of event s] by (simp add: step_def handleKeyPress_def)
next
  case ToggleStyle
  then show ?thesis by (simp add: step_def onToggle_calls_def)
qed

lemma run_events_mapStyle:
  "mapStyle s \<in> {STREETS, SATELLITE} \<Longrightarrow> mapStyle (run_events es s) \<in> {STREETS, SATELLITE}"
proof (induction es arbitrary: s)
  case Nil
  then show ?case by simp
next
  case (Cons e es)
  have "mapStyle (step e s) \<in> {STREETS, SATELLITE}"
    using Cons.prems toggleMapStyle_range [of "mapStyle s"]
    by (simp add: step_mapStyle split: Event.split)
  then show ?case using Cons.IH by simp
qed

text \<open>
  Claim C6. The selected map style is always one of \<open>STREETS\<close> and \<open>SATELLITE\<close>:
  it is \<open>STREETS\<close> in the first render, the toggle sends \<open>STREETS\<close> to \<open>SATELLITE\<close>
  and \<open>SATELLITE\<close> to \<open>STREETS\<close>, the toggle button applies the toggle to the current
  style, and after any sequence of events the style is one of the two.
\<close>

theorem mapStyle_invariant:
  "mapStyle (initialState c sel) = STREETS
   \<and> toggleMapStyle STREETS = SATELLITE
   \<and> toggleMapStyle SATELLITE = STREETS
   \<and> mapStyle (onToggle s) = toggleMapStyle (mapStyle s)
   \<and> mapStyle (run_events es (initialState c sel)) \<in> {STREETS, SATELLITE}"
proof -
  have init: "mapStyle (initialState c sel) = STREETS"
    by (simp add: initialState_def STREETS_def)
  have "mapStyle (run_events es (initialState c sel)) \<in> {STREETS, SATELLITE}"
    by (rule run_events_mapStyle) (simp add: init)
  then show ?thesis
    using init by (simp add: toggleMapStyle_def STREETS_def SATELLITE_def onToggle_def onToggle_calls_def)
qed

subsection \<open>Which operations are gated by the threshold\<close>

text \<open>
  Claim C2 says that every operation writing the weather coordinate changes it only
  when the new value is more than 0.02 away from the old one. The current-location
  update is not gated: after a move to (0, 0), an update to (1/128, 0) replaces the
  weather coordinate although the two points are 1/128, less than 0.02, apart.
\<close>
theorem weather_coordinate_gate_counterexample:
  "lastWeatherCoordinates
     (handleMove \<lparr>viewState = \<lparr>vs_longitude = 0, vs_latitude = 0, vs_zoom = 15\<rparr>\<rparr>
        (initialState \<lparr>longitude = 0, latitude = 0\<rparr> None))
     = Some \<lparr>longitude = 0, latitude = 0\<rparr>
   \<and> lastWeatherCoordinates
       (updateCoordinates \<lparr>longitude = 1 / 128, latitude = 0\<rparr>
          (handleMove \<lparr>viewState = \<lparr>vs_longitude = 0, vs_latitude = 0, vs_zoom = 15\<rparr>\<rparr>
             (initialState \<lparr>longitude = 0, latitude = 0\<rparr> None)))
     = Some \<lparr>longitude = 1 / 128, latitude = 0\<rparr>
   \<and> \<lparr>longitude = 1 / 128, latitude = 0\<rparr> \<noteq> \<lparr>longitude = 0, latitude = 0 :: real\<rparr>
   \<and> \<not> sqrt ((1 / 128 - 0)\<^sup>2 + (0 - 0)\<^sup>2) > (0.02 :: real)"
proof -
  have "sqrt ((1 / 128 - 0)\<^sup>2 + (0 - 0)\<^sup>2) \<le> (0.02 :: real)"
    by (rule sqrt_within_threshold) (simp add: power2_eq_square)
  then show ?thesis
    by (simp add: updateCoordinates_result handleMove_result initialState_def)
qed

text \<open>
  Claim C2, amended. Only move handling with a previous weather coordinate is gated:
  there the weather coordinate changes only when the event's coordinates are more than
  0.02 away from it. A move with no previous weather coordinate, a search selection and
  a current-location update set it to the new coordinates whatever the distance, and
  Ctrl+Q sets it to null.
\<close>

theorem weather_coordinate_writes:
  "(lastWeatherCoordinates s = Some w
      \<and> lastWeatherCoordinates (handleMove event s) \<noteq> lastWeatherCoordinates s
    \<longrightarrow> sqrt ((vs_longitude (viewState event) - longitude w)\<^sup>2 +
              (vs_latitude (viewState event) - latitude w)\<^sup>2) > 0.02)
   \<and> (lastWeatherCoordinates s = None
    \<longrightarrow> lastWeatherCoordinates (handleMove event s) =
          Some \<lparr>longitude = vs_longitude (viewState event),
                latitude = vs_latitude (viewState event)\<rparr>)
   \<and> lastWeatherCoordinates (handleSelectLocation lon lat s) =
       Some \<lparr>longitude = lon, latitude = lat\<rparr>
   \<and> lastWeatherCoordinates (updateCoordinates newCoordinates s) = Some newCoordinates
   \<and> lastWeatherCoordinates (handleKeyPress ctrl_q s) = None"
proof -
  have gated: "lastWeatherCoordinates s = Some w
      \<and> lastWeatherCoordinates (handleMove event s) \<noteq> lastWeatherCoordinates s
    \<longrightarrow> sqrt ((vs_longitude (viewState event) - longitude w)\<^sup>2 +
              (vs_latitude (viewState event) - latitude w)\<^sup>2) > 0.02"
    by (auto simp add: handleMove_result distanceMoved_def MOVEMENT_THRESHOLD_def
          split: if_splits)
  have first: "lastWeatherCoordinates s = None
    \<longrightarrow> lastWeatherCoordinates (handleMove event s) =
          Some \<lparr>longitude = vs_longitude (viewState event),
                latitude = vs_latitude (viewState event)\<rparr>"
    by (simp add: handleMove_result)
  have others: "lastWeatherCoordinates (handleSelectLocation lon lat s) =
                  Some \<lparr>longitude = lon, latitude = lat\<rparr>
      \<and> lastWeatherCoordinates (updateCoordinates newCoordinates s) = Some newCoordinates
      \<and> lastWeatherCoordinates (handleKeyPress ctrl_q s) = None"
    by (simp add: handleSelectLocation_result updateCoordinates_result
          handleKeyPress_result ctrl_q_def)
  from gated first others show ?thesis by blast
qed

theorem weather_coordinate_writes_witness:
  "lastWeatherCoordinates
     (handleMove \<lparr>viewState = \<lparr>vs_longitude = 0, vs_latitude = 0, vs_zoom = 15\<rparr>\<rparr>
        (initialState \<lparr>longitude = 0, latitude = 0\<rparr> None))
     = Some \<lparr>longitude = 0, latitude = 0\<rparr>
   \<and> lastWeatherCoordinates
       (handleMove \<lparr>viewState = \<lparr>vs_longitude = 1, vs_latitude = 0, vs_zoom = 15\<rparr>\<rparr>
          (handleMove \<lparr>viewState = \<lparr>vs_longitude = 0, vs_latitude = 0, vs_zoom = 15\<rparr>\<rparr>
             (initialState \<lparr>longitude = 0, latitude = 0\<rparr> None)))
     \<noteq> lastWeatherCoordinates
        (handleMove \<lparr>viewState = \<lparr>vs_longitude = 0, vs_latitude = 0, vs_zoom = 15\<rparr>\<rparr>
           (initialState \<lparr>longitude = 0, latitude = 0\<rparr> None))
   \<and> sqrt ((1 - 0)\<^sup>2 + (0 - 0)\<^sup>2) > (0.02 :: real)
   \<and> lastWeatherCoordinates (initialState \<lparr>longitude = 0, latitude = 0\<rparr> None) = None
   \<and> lastWeatherCoordinates
       (handleMove \<lparr>viewState = \<lparr>vs_longitude = 0, vs_latitude = 0, vs_zoom = 15\<rparr>\<rparr>
          (initialState \<lparr>longitude = 0, latitude = 0\<rparr> None))
     = Some \<lparr>longitude = 0, latitude = 0\<rparr>"
proof -
  let ?init = "initialState \<lparr>longitude = 0, latitude = 0\<rparr> None"
  let ?origin = "\<lparr>viewState = \<lparr>vs_longitude = 0, vs_latitude = 0, vs_zoom = 15\<rparr>\<rparr>"
  let ?far = "\<lparr>viewState = \<lparr>vs_longitude = 1, vs_latitude = 0, vs_zoom = 15\<rparr>\<rparr>"
  have none: "lastWeatherCoordinates ?init = None"
    by (simp add: initialState_def)
  from weather_coordinate_writes [of ?init _ ?origin] none
  have first: "lastWeatherCoordinates (handleMove ?origin ?init)
                 = Some \<lparr>longitude = 0, latitude = 0\<rparr>"
    by simp
  have changed: "lastWeatherCoordinates (handleMove ?far (handleMove ?origin ?init))
                   \<noteq> lastWeatherCoordinates (handleMove ?origin ?init)"
    by (simp add: handleMove_result initialState_def distanceMoved_def MOVEMENT_THRESHOLD_def)
  from weather_coordinate_writes
         [of "handleMove ?origin ?init" "\<lparr>longitude = 0, latitude = 0\<rparr>" ?far] first changed
  have "sqrt ((1 - 0)\<^sup>2 + (0 - 0)\<^sup>2) > (0.02 :: real)"
    by simp
  with none first changed show ?thesis by simp
qed

subsection \<open>The weather panel and the viewport\<close>





subsection \<open>The reset shortcut\<close>

text \<open>
  Claim C4 says that Ctrl+Q asks the map for pitch 0 and bearing 0 from every state.
  In the state of the first render the map reference is not set and the optional call
  is skipped: the handler makes no \<open>flyTo\<close> call there.
\<close>

theorem ctrl_q_flyTo_counterexample:
  "mapRef (initialState \<lparr>longitude = 0, latitude = 0\<rparr> None) = None
   \<and> handleKeyPress_calls ctrl_q (initialState \<lparr>longitude = 0, latitude = 0\<rparr> None) =
       [PreventDefault,
        SetCoordinates \<lparr>longitude = - 4.649779746122704, latitude = 17.08385049329921\<rparr>,
        SetZoom 2,
        SetSelectedLocation None,
        SetLastWeatherCoordinates None]
   \<and> FlyTo \<lparr>center = (- 4.649779746122704, 17.08385049329921),
            fly_zoom = 2, pitch = 0, bearing = 0\<rparr>
       \<notin> set (handleKeyPress_calls ctrl_q (initialState \<lparr>longitude = 0, latitude = 0\<rparr> None))
   \<and> mapRef (handleKeyPress ctrl_q (initialState \<lparr>longitude = 0, latitude = 0\<rparr> None)) = None"
  by (simp add: handleKeyPress_result)
     (simp add: handleKeyPress_calls_def flyTo_if_mounted_def ctrl_q_def initialState_def)

text \<open>
  Claim C4, amended. From every state, Ctrl+Q sets the coordinates to
  (longitude -4.649779746122704, latitude 17.08385049329921), the zoom to 2, and the
  selected location and the weather coordinate to null. The request to fly to that
  centre at zoom 2, pitch 0 and bearing 0 is made of the map exactly when the map
  reference is set; when it is not set, no request is made.
\<close>

theorem ctrl_q_resets_view:
  "coordinates (handleKeyPress ctrl_q s) =
     \<lparr>longitude = - 4.649779746122704, latitude = 17.08385049329921\<rparr>
   \<and> zoom (handleKeyPress ctrl_q s) = 2
   \<and> selectedLocation (handleKeyPress ctrl_q s) = None
   \<and> lastWeatherCoordinates (handleKeyPress ctrl_q s) = None
   \<and> mapRef (handleKeyPress ctrl_q s) =
       (case mapRef s of
          None \<Rightarrow> None
        | Some m \<Rightarrow>
            Some (m\<lparr>flyToRequests := flyToRequests m @
                    [\<lparr>center = (- 4.649779746122704, 17.08385049329921),
                      fly_zoom = 2, pitch = 0, bearing = 0\<rparr>]\<rparr>))
   \<and> (FlyTo \<lparr>center = (- 4.649779746122704, 17.08385049329921),
             fly_zoom = 2, pitch = 0, bearing = 0\<rparr>
        \<in> set (handleKeyPress_calls ctrl_q s)) = (mapRef s \<noteq> None)"
  by (simp add: handleKeyPress_result ctrl_q_def)
     (cases "mapRef s"; simp add: handleKeyPress_calls_def flyTo_if_mounted_def)

theorem ctrl_q_resets_view_witness:
  "mapRef (run_events [Ref (Some \<lparr>flyToRequests = []\<rparr>),
                       SearchSelect 31 (- 17)]
             (initialState \<lparr>longitude = 0, latitude = 0\<rparr> None)) \<noteq> None
   \<and> mapRef (handleKeyPress ctrl_q
               (run_events [Ref (Some \<lparr>flyToRequests = []\<rparr>), SearchSelect 31 (- 17)]
                  (initialState \<lparr>longitude = 0, latitude = 0\<rparr> None)))
     = Some \<lparr>flyToRequests =
               [\<lparr>center = (31, - 17), fly_zoom = 16, pitch = 60, bearing = - 20\<rparr>,
                \<lparr>center = (- 4.649779746122704, 17.08385049329921),
                 fly_zoom = 2, pitch = 0, bearing = 0\<rparr>]\<rparr>
   \<and> lastWeatherCoordinates (handleKeyPress ctrl_q
               (run_events [Ref (Some \<lparr>flyToRequests = []\<rparr>), SearchSelect 31 (- 17)]
                  (initialState \<lparr>longitude = 0, latitude = 0\<rparr> None))) = None"
proof -
  let ?s = "run_events [Ref (Some \<lparr>flyToRequests = []\<rparr>), SearchSelect 31 (- 17)]
              (initialState \<lparr>longitude = 0, latitude = 0\<rparr> None)"
  have m: "mapRef ?s =
             Some \<lparr>flyToRequests =
                     [\<lparr>center = (31, - 17), fly_zoom = 16, pitch = 60, bearing = - 20\<rparr>]\<rparr>"
    by (simp add: step_def measuredRef_calls_def handleSelectLocation_def [symmetric]
          handleSelectLocation_result initialState_def)
  from ctrl_q_resets_view [of ?s] m show ?thesis
    by simp
qed

end
